theory Spec2Isabelle
  imports Main "HOL-Library.Sublist"
begin

section \<open>The data collector: a shallow embedding of data\_collector.py\<close>

text \<open>
  The program keeps one table \<open>record\<close> in a local store, pulls the rows from a remote
  store (\<open>sync_records\<close>), resolves each row's reference to content and converts it to
  text (\<open>process_content\<close>), and pushes the rows it changed (\<open>update_records\<close>).

  Python values are modelled as follows. A \<open>str\<close> and a \<open>bytes\<close> object are both a
  \<open>char list\<close>, every \<open>char\<close> one byte (a \<open>str\<close> is read as its UTF-8 encoding, so
  \<open>s.encode()\<close> is the identity); the two Python types are told apart by the constructors
  of \<open>content\<close>, since the source passes both to \<open>convert_content\<close> and they behave
  differently there. A raised exception is a value of \<open>exn\<close>; \<open>str(e)\<close> written into the
  column \<open>error\<close> is the message \<open>ExcMsg e\<close>. Time stamps are integers.
\<close>

subsection \<open>Strings\<close>

text \<open>\<open>needle in hay\<close> on Python strings.\<close>

fun contains :: "string \<Rightarrow> string \<Rightarrow> bool" where
  "contains needle [] = (needle = [])"
| "contains needle (c # cs) = (prefix needle (c # cs) \<or> contains needle cs)"

text \<open>
  \<open>s.lower()\<close>, on the ASCII letters. Bytes outside ASCII are left alone; none of the
  strings the program compares a lowered string with can arise from lowering one of them.
\<close>

definition lower_char :: "char \<Rightarrow> char" where
  "lower_char c =
     (case map_of (zip ''ABCDEFGHIJKLMNOPQRSTUVWXYZ'' ''abcdefghijklmnopqrstuvwxyz'') c of
        Some l \<Rightarrow> l
      | None \<Rightarrow> c)"

definition lower :: "string \<Rightarrow> string" where
  "lower s = map lower_char s"

text \<open>
  \<open>s.strip()\<close> removes, at both ends, the characters for which \<open>str.isspace\<close> holds:
  U+0009 to U+000D, U+001C to U+0020, U+0085, U+00A0, U+1680, U+2000 to U+200A, U+2028,
  U+2029, U+202F, U+205F and U+3000, here as their UTF-8 byte sequences.
\<close>

definition whitespace :: "string list" where
  "whitespace =
     [[CHR 0x09], [CHR 0x0A], [CHR 0x0B], [CHR 0x0C], [CHR 0x0D],
      [CHR 0x1C], [CHR 0x1D], [CHR 0x1E], [CHR 0x1F], [CHR 0x20],
      [CHR 0xC2, CHR 0x85], [CHR 0xC2, CHR 0xA0], [CHR 0xE1, CHR 0x9A, CHR 0x80],
      [CHR 0xE2, CHR 0x80, CHR 0x80], [CHR 0xE2, CHR 0x80, CHR 0x81],
      [CHR 0xE2, CHR 0x80, CHR 0x82], [CHR 0xE2, CHR 0x80, CHR 0x83],
      [CHR 0xE2, CHR 0x80, CHR 0x84], [CHR 0xE2, CHR 0x80, CHR 0x85],
      [CHR 0xE2, CHR 0x80, CHR 0x86], [CHR 0xE2, CHR 0x80, CHR 0x87],
      [CHR 0xE2, CHR 0x80, CHR 0x88], [CHR 0xE2, CHR 0x80, CHR 0x89],
      [CHR 0xE2, CHR 0x80, CHR 0x8A], [CHR 0xE2, CHR 0x80, CHR 0xA8],
      [CHR 0xE2, CHR 0x80, CHR 0xA9], [CHR 0xE2, CHR 0x80, CHR 0xAF],
      [CHR 0xE2, CHR 0x81, CHR 0x9F], [CHR 0xE3, CHR 0x80, CHR 0x80]]"

text \<open>Drop from the front of a string every leading occurrence of one of the given
  (non-empty) byte sequences.\<close>

function strip_left :: "string list \<Rightarrow> string \<Rightarrow> string" where
  "strip_left ws s =
     (case List.find (\<lambda>t. t \<noteq> [] \<and> prefix t s) ws of
        None \<Rightarrow> s
      | Some t \<Rightarrow> strip_left ws (drop (length t) s))"
  by pat_completeness auto
termination
  by (relation "measure (\<lambda>(ws, s). length s)") (auto simp: find_Some_iff prefix_def)

declare strip_left.simps [simp del]

definition strip :: "string \<Rightarrow> string" where
  "strip s = rev (strip_left (map rev whitespace) (rev (strip_left whitespace s)))"

text \<open>\<open>s.split(',', 1)\<close> for a string that holds a comma: the parts around the first one.\<close>

definition split_comma :: "string \<Rightarrow> string \<times> string" where
  "split_comma s = (takeWhile (\<lambda>c. c \<noteq> CHR '','') s, tl (dropWhile (\<lambda>c. c \<noteq> CHR '','') s))"

text \<open>
  \<open>os.path.splitext(p)[1]\<close> (POSIX): the last component of the path, its leading dots
  skipped, from its last dot on; empty when no dot is left.
\<close>

definition basename :: "string \<Rightarrow> string" where
  "basename p = rev (takeWhile (\<lambda>c. c \<noteq> CHR ''/'') (rev p))"

definition splitext :: "string \<Rightarrow> string" where
  "splitext p =
     (let stem = dropWhile (\<lambda>c. c = CHR ''.'') (basename p)
      in if CHR ''.'' \<in> set stem
         then CHR ''.'' # rev (takeWhile (\<lambda>c. c \<noteq> CHR ''.'') (rev stem))
         else [])"

subsection \<open>Exceptions and messages\<close>

datatype exn =
    ConversionFailed          \<comment> \<open>the ValueError raised when a conversion gave nothing\<close>
  | UnsupportedFormat         \<comment> \<open>the ValueError raised when no file type was detected\<close>
  | TimeFormatError           \<comment> \<open>ValueError of \<open>strptime\<close>\<close>
  | TypeError                 \<comment> \<open>a \<open>str\<close> where \<open>bytes\<close> are required\<close>
  | IndexError
  | IntegrityError            \<comment> \<open>a NULL written into a column declared NOT NULL\<close>
  | NameError string          \<comment> \<open>a global name that is not defined\<close>
  | UnboundLocalError string  \<comment> \<open>a local variable read before its assignment\<close>
  | External string           \<comment> \<open>raised by the network, the file system or the converter\<close>

datatype message =
    ExcMsg exn                 \<comment> \<open>\<open>str(e)\<close>\<close>
  | FileUpToDate int int       \<comment> \<open>file is up to date (file time, record time)\<close>
  | FileUpToDateRaw int string \<comment> \<open>the same, with \<open>updated_at\<close> as stored\<close>
  | ContentUpToDate int int    \<comment> \<open>content is up to date (Last-Modified, record time)\<close>
  | UnsupportedContentType string
  | FileNotExist

subsection \<open>The file type registry\<close>

datatype file_type = Html | Text | Pdf | Word | Excel | Powerpoint

text \<open>The keys of \<open>FILE_TYPES\<close>, in the order the dictionary is iterated.\<close>

definition file_types :: "file_type list" where
  "file_types = [Html, Text, Pdf, Word, Excel, Powerpoint]"

fun content_types :: "file_type \<Rightarrow> string list" where
  "content_types Html = [''text/html'', ''application/xhtml+xml'']"
| "content_types Text = [''text/plain'', ''text/txt'']"
| "content_types Pdf = [''application/pdf'', ''application/x-pdf'', ''application/acrobat'',
     ''application/vnd.pdf'']"
| "content_types Word = [''application/msword'',
     ''application/vnd.openxmlformats-officedocument.wordprocessingml.document'',
     ''application/vnd.ms-word'', ''application/vnd.ms-word.document.macroEnabled.12'']"
| "content_types Excel = [''application/vnd.ms-excel'',
     ''application/vnd.openxmlformats-officedocument.spreadsheetml.sheet'',
     ''application/vnd.ms-excel.sheet.macroEnabled.12'']"
| "content_types Powerpoint = [''application/vnd.ms-powerpoint'',
     ''application/vnd.openxmlformats-officedocument.presentationml.presentation'',
     ''application/vnd.ms-powerpoint.presentation.macroEnabled.12'']"

fun extensions :: "file_type \<Rightarrow> string list" where
  "extensions Html = [''.html'', ''.htm'', ''.xhtml'']"
| "extensions Text = [''.txt'']"
| "extensions Pdf = [''.pdf'']"
| "extensions Word = [''.doc'', ''.docx'']"
| "extensions Excel = [''.xls'', ''.xlsx'']"
| "extensions Powerpoint = [''.ppt'', ''.pptx'']"

definition ole2_magic :: string where
  "ole2_magic = [CHR 0xD0, CHR 0xCF, CHR 0x11, CHR 0xE0]"

definition zip_magic :: string where
  "zip_magic = [CHR ''P'', CHR ''K'', CHR 0x03, CHR 0x04]"

fun magic_numbers :: "file_type \<Rightarrow> string list" where
  "magic_numbers Html = [''<!DOCTYPE html>'', ''<html'', ''<?xml'']"
| "magic_numbers Text = []"
| "magic_numbers Pdf = [''%PDF'']"
| "magic_numbers Word = [ole2_magic, zip_magic]"
| "magic_numbers Excel = [ole2_magic, zip_magic]"
| "magic_numbers Powerpoint = [ole2_magic, zip_magic]"

subsection \<open>The classifier\<close>

datatype content = Bytes string | Str string

text \<open>Truth value of an optional string: \<open>None\<close> and the empty string are false.\<close>

fun truthy :: "string option \<Rightarrow> bool" where
  "truthy None = False"
| "truthy (Some s) = (s \<noteq> [])"

text \<open>
  The first loop of \<open>detect_file_type\<close> and the loop of \<open>check_content_type\<close>: the first
  kind of the registry one of whose content types occurs in the lowered claimed type.
\<close>

definition claimed_kind :: "string \<Rightarrow> file_type option" where
  "claimed_kind content_type =
     List.find (\<lambda>ft. list_ex (\<lambda>ct. contains ct (lower content_type)) (content_types ft)) file_types"

text \<open>
  \<open>detect_file_type\<close>. The magic numbers are byte strings: for a \<open>str\<close> content the first
  \<open>startswith\<close> of the last loop (kind html, whose list is not empty) raises TypeError.
\<close>

definition detect_file_type :: "content \<Rightarrow> string option \<Rightarrow> exn + file_type option" where
  "detect_file_type content content_type =
     (case (if truthy content_type then claimed_kind (the content_type) else None) of
        Some ft \<Rightarrow> Inr (Some ft)
      | None \<Rightarrow>
          if truthy content_type \<and> contains ''text/plain'' (lower (the content_type))
          then Inr (Some Text)
          else (case content of
                  Str s \<Rightarrow> Inl TypeError
                | Bytes b \<Rightarrow>
                    Inr (List.find (\<lambda>ft. list_ex (\<lambda>magic. prefix magic (take 32 b))
                                            (magic_numbers ft)) file_types)))"

text \<open>\<open>detect_file_extension\<close>: defined by the source, called nowhere in it.\<close>

definition detect_file_extension :: "string \<Rightarrow> string option \<Rightarrow> string option" where
  "detect_file_extension content content_type =
     (if prefix zip_magic content then
        (if truthy content_type then
           (if contains ''wordprocessingml'' (the content_type) then Some ''.docx''
            else if contains ''spreadsheetml'' (the content_type) then Some ''.xlsx''
            else if contains ''presentationml'' (the content_type) then Some ''.pptx''
            else None)
         else None)
      else if prefix ole2_magic content then
        (if truthy content_type then
           (if contains ''msword'' (the content_type) then Some ''.doc''
            else if contains ''ms-excel'' (the content_type) then Some ''.xls''
            else if contains ''ms-powerpoint'' (the content_type) then Some ''.ppt''
            else None)
         else None)
      else None)"

definition check_content_type :: "string option \<Rightarrow> bool" where
  "check_content_type content_type =
     (if \<not> truthy content_type then False
      else claimed_kind (the content_type) \<noteq> None)"

subsection \<open>The table and the world around the program\<close>

text \<open>One row of the table \<open>record\<close>; \<open>reference\<close> may be NULL.\<close>

record row =
  id_col :: int
  title :: string
  text_col :: string
  reference :: "string option"
  group_id :: int
  created_by :: string
  created_at :: string
  updated_at :: string
  deleted :: int
  hash :: string
  update_flg :: int
  error :: "message option"

text \<open>One element of the list the remote store answers \<open>get_records\<close> with; its title
  and its text may be \<open>null\<close>.\<close>

record remote_record =
  rr_id :: int
  rr_title :: "string option"
  rr_text :: "string option"
  rr_reference :: "string option"
  rr_group_id :: int
  rr_created_by :: string
  rr_created_at :: string
  rr_updated_at :: string

text \<open>What the program reads of an HTTP response.\<close>

record response =
  content_type_header :: "string option"
  last_modified_header :: "string option"
  body :: string
  body_text :: string

text \<open>The three ways \<open>MarkItDown.convert\<close> ends.\<close>

datatype conversion = Converted string | ReturnedNone | Raised exn

text \<open>
  Everything outside the program is a parameter: the libraries it calls (SHA-1, UTF-8
  decoding, \<open>strptime\<close> with the record's and with the HTTP date format, the HTML
  selector, the external converter), the file system, the network, the clock and the
  remote store. \<open>select_one page selector\<close> is the text of the first element of the parsed
  page that matches, \<open>None\<close> when no element does.
\<close>

record world =
  sha1_hex :: "string \<Rightarrow> string"
  decode_utf8 :: "string \<Rightarrow> string"
  strptime_record :: "string \<Rightarrow> int option"
  strptime_http :: "string \<Rightarrow> int option"
  path_exists :: "string \<Rightarrow> bool"
  getmtime :: "string \<Rightarrow> int"
  read_file :: "string \<Rightarrow> exn + string"
  http_head :: "string \<Rightarrow> exn + response"
  http_get :: "string \<Rightarrow> exn + response"
  select_one :: "string \<Rightarrow> string \<Rightarrow> exn + string option"
  md_convert :: "string \<Rightarrow> content \<Rightarrow> conversion"
  now :: string
  get_records :: "exn + remote_record list"
  post_update :: "int \<Rightarrow> string \<Rightarrow> exn + unit"

text \<open>
  What the program does that can be observed from outside, newest first: the files it
  reads, its requests, the calls of the converter adapter and of the external converter
  (with the path handed over), and the lines of its log that report an outcome.
\<close>

datatype event =
    ReadFile string
  | HttpHead string
  | HttpGet string
  | ConvertContent int
  | MdConvert string
  | LogUpdated int
  | LogError int exn
  | LogSyncFailed exn
  | PostOk int
  | PostFailed int exn

text \<open>
  The state: the table, the temporary files the program has created and not removed,
  and the trace. The store's writes do not fail in this model, a write is visible at once
  (\<open>commit\<close> is not modelled), and the world does not change during a run: a path
  that exists keeps existing, and the clock gives one time stamp.
\<close>

record state =
  db :: "row list"
  tmp_files :: "string list"
  trace :: "event list"

text \<open>\<open>UPDATE record SET error = ? WHERE id = ?\<close>\<close>

definition set_error :: "int \<Rightarrow> message \<Rightarrow> row list \<Rightarrow> row list" where
  "set_error i m rows = map (\<lambda>r. if id_col r = i then r\<lparr>error := Some m\<rparr> else r) rows"

text \<open>\<open>UPDATE record SET text = ?, hash = ?, update_flg = 1 WHERE id = ?\<close>\<close>

definition set_text :: "int \<Rightarrow> string \<Rightarrow> string \<Rightarrow> row list \<Rightarrow> row list" where
  "set_text i t h rows =
     map (\<lambda>r. if id_col r = i then r\<lparr>text_col := t, hash := h, update_flg := 1\<rparr> else r) rows"

definition log_event :: "event \<Rightarrow> state \<Rightarrow> state" where
  "log_event e s = s\<lparr>trace := e # trace s\<rparr>"

subsection \<open>The converter adapter\<close>

text \<open>
  \<open>save_temp_file\<close>: \<open>open(temp_file, 'wb')\<close> creates the file, then \<open>f.write(content)\<close>
  raises TypeError when the content is a \<open>str\<close>; the file stays.
\<close>

definition save_temp_file :: "world \<Rightarrow> content \<Rightarrow> file_type \<Rightarrow> state \<Rightarrow> (exn + string) \<times> state" where
  "save_temp_file w content ft s =
     (case extensions ft of
        [] \<Rightarrow> (Inl IndexError, s)
      | extension # _ \<Rightarrow>
          (let temp_file = ''temp_'' @ now w @ extension;
               s' = s\<lparr>tmp_files := List.insert temp_file (tmp_files s)\<rparr>
           in case content of
                Bytes b \<Rightarrow> (Inr temp_file, s')
              | Str t \<Rightarrow> (Inl TypeError, s')))"

text \<open>
  The inner \<open>try\<close> of \<open>convert_content\<close>. The module imports the class \<open>MarkItDown\<close>
  only, so the name \<open>markitdown\<close> in its \<open>except\<close> clause is not defined: whenever the
  body raises (the converter did, or it returned \<open>None\<close>), evaluating the clause raises
  NameError in place of that exception. The \<open>finally\<close> clause removes the file.
\<close>

definition convert_file :: "world \<Rightarrow> string \<Rightarrow> content \<Rightarrow> state \<Rightarrow> (exn + string) \<times> state" where
  "convert_file w temp_file content s =
     (let s1 = log_event (MdConvert temp_file) s;
          r = (case md_convert w temp_file content of
                 Converted t \<Rightarrow> Inr t
               | ReturnedNone \<Rightarrow> Inl (NameError ''markitdown'')
               | Raised e \<Rightarrow> Inl (NameError ''markitdown''))
      in (r, s1\<lparr>tmp_files := removeAll temp_file (tmp_files s1)\<rparr>))"

text \<open>
  \<open>convert_content\<close>: \<open>Some\<close> text, or \<open>None\<close> after writing the exception into the
  row's \<open>error\<close>.
\<close>

definition convert_content ::
  "world \<Rightarrow> content \<Rightarrow> string option \<Rightarrow> int \<Rightarrow> state \<Rightarrow> string option \<times> state" where
  "convert_content w content content_type i s =
     (let s0 = log_event (ConvertContent i) s
      in case (case detect_file_type content content_type of
                 Inl e \<Rightarrow> (Inl e, s0)
               | Inr None \<Rightarrow> (Inl UnsupportedFormat, s0)
               | Inr (Some ft) \<Rightarrow>
                   if ft = Text
                   then (Inr (case content of Bytes b \<Rightarrow> decode_utf8 w b | Str t \<Rightarrow> t), s0)
                   else (case save_temp_file w content ft s0 of
                           (Inl e, s1) \<Rightarrow> (Inl e, s1)
                         | (Inr temp_file, s1) \<Rightarrow> convert_file w temp_file content s1))
         of (Inr t, s2) \<Rightarrow> (Some t, s2)
          | (Inl e, s2) \<Rightarrow> (None, s2\<lparr>db := set_error i (ExcMsg e) (db s2)\<rparr>))"

subsection \<open>The record pipeline\<close>

text \<open>
  The local variables of \<open>process_content\<close> that live across the iterations of its loop:
  \<open>None\<close> is a variable not yet assigned.
\<close>

record locals =
  markdown_text :: "string option"
  response :: "response option"

text \<open>
  How the part of the loop body before the final update ends: with \<open>continue\<close> after a
  message was written, by raising, or by reaching the final update.
\<close>

datatype flow = Skip message | Raise exn | Fall

text \<open>How the processing of one record ends.\<close>

datatype outcome = NoReference | Skipped message | Failed exn | Updated string

definition skip :: "int \<Rightarrow> message \<Rightarrow> locals \<Rightarrow> state \<Rightarrow> flow \<times> locals \<times> state" where
  "skip i m l s = (Skip m, l, s\<lparr>db := set_error i m (db s)\<rparr>)"

definition header_or_empty :: "string option \<Rightarrow> string" where
  "header_or_empty h = (case h of None \<Rightarrow> [] | Some v \<Rightarrow> v)"

text \<open>The content type guessed from the extension of a local file.\<close>

definition guess_content_type :: "string \<Rightarrow> string" where
  "guess_content_type ext =
     (case map_of
        [(''.doc'', ''application/msword''),
         (''.docx'', ''application/vnd.openxmlformats-officedocument.wordprocessingml.document''),
         (''.xls'', ''application/vnd.ms-excel''),
         (''.xlsx'', ''application/vnd.openxmlformats-officedocument.spreadsheetml.sheet''),
         (''.ppt'', ''application/vnd.ms-powerpoint''),
         (''.pptx'', ''application/vnd.openxmlformats-officedocument.presentationml.presentation''),
         (''.txt'', ''text/plain'')] ext of
        Some ct \<Rightarrow> ct
      | None \<Rightarrow> ''application/octet-stream'')"

text \<open>The branch \<open>os.path.exists(reference)\<close>; it does the update itself before falling
  through to the final one.\<close>

definition process_file :: "world \<Rightarrow> row \<Rightarrow> string \<Rightarrow> locals \<Rightarrow> state \<Rightarrow> flow \<times> locals \<times> state" where
  "process_file w r ref l s =
     (let file_time = getmtime w ref
      in case strptime_record w (updated_at r) of
           None \<Rightarrow> (Raise TimeFormatError, l, s)
         | Some record_time \<Rightarrow>
             if text_col r \<noteq> [] \<and> file_time \<le> record_time
             then skip (id_col r) (FileUpToDate file_time record_time) l s
             else (case read_file w ref of
                     Inl e \<Rightarrow> (Raise e, l, log_event (ReadFile ref) s)
                   | Inr b \<Rightarrow>
                       (case convert_content w (Bytes b)
                               (Some (guess_content_type (lower (splitext ref))))
                               (id_col r) (log_event (ReadFile ref) s) of
                          (None, s1) \<Rightarrow> (Raise ConversionFailed, l, s1)
                        | (Some md, s1) \<Rightarrow>
                            (Fall, l\<lparr>markdown_text := Some md\<rparr>,
                             log_event (LogUpdated (id_col r))
                               (s1\<lparr>db := set_text (id_col r) md (sha1_hex w md) (db s1)\<rparr>)))))"

text \<open>The branch of a \<open>URL,selector\<close> reference. When no element matches, nothing is
  assigned and control reaches the final update.\<close>

definition process_selector :: "world \<Rightarrow> row \<Rightarrow> string \<Rightarrow> locals \<Rightarrow> state \<Rightarrow> flow \<times> locals \<times> state" where
  "process_selector w r ref l s =
     (case split_comma ref of
        (url, xpath) \<Rightarrow>
          (case http_get w url of
             Inl e \<Rightarrow> (Raise e, l, log_event (HttpGet url) s)
           | Inr resp \<Rightarrow>
               (case select_one w (body_text resp) (strip xpath) of
                  Inl e \<Rightarrow> (Raise e, l\<lparr>response := Some resp\<rparr>, log_event (HttpGet url) s)
                | Inr None \<Rightarrow> (Fall, l\<lparr>response := Some resp\<rparr>, log_event (HttpGet url) s)
                | Inr (Some t) \<Rightarrow>
                    (case convert_content w (Str t)
                            (Some (header_or_empty (content_type_header resp)))
                            (id_col r) (log_event (HttpGet url) s) of
                       (None, s1) \<Rightarrow> (Raise ConversionFailed, l\<lparr>response := Some resp\<rparr>, s1)
                     | (Some md, s1) \<Rightarrow>
                         (Fall, l\<lparr>response := Some resp, markdown_text := Some md\<rparr>, s1)))))"

text \<open>The branch of a bare URL, after the HEAD request and the staleness check.\<close>

definition fetch_url :: "world \<Rightarrow> row \<Rightarrow> string \<Rightarrow> response \<Rightarrow> locals \<Rightarrow> state \<Rightarrow> flow \<times> locals \<times> state" where
  "fetch_url w r ref head_resp l s =
     (let content_type = header_or_empty (content_type_header head_resp)
      in if \<not> check_content_type (Some content_type)
         then skip (id_col r) (UnsupportedContentType content_type) l s
         else (case http_get w ref of
                 Inl e \<Rightarrow> (Raise e, l, log_event (HttpGet ref) s)
               | Inr resp \<Rightarrow>
                   (case convert_content w (Bytes (body resp))
                           (Some (header_or_empty (content_type_header resp)))
                           (id_col r) (log_event (HttpGet ref) s) of
                      (None, s1) \<Rightarrow> (Raise ConversionFailed, l\<lparr>response := Some resp\<rparr>, s1)
                    | (Some md, s1) \<Rightarrow>
                        (Fall, l\<lparr>response := Some resp, markdown_text := Some md\<rparr>, s1))))"

definition process_url :: "world \<Rightarrow> row \<Rightarrow> string \<Rightarrow> locals \<Rightarrow> state \<Rightarrow> flow \<times> locals \<times> state" where
  "process_url w r ref l s =
     (case http_head w ref of
        Inl e \<Rightarrow> (Raise e, l, log_event (HttpHead ref) s)
      | Inr head_resp \<Rightarrow>
          (let l1 = l\<lparr>response := Some head_resp\<rparr>;
               s1 = log_event (HttpHead ref) s
           in if text_col r \<noteq> [] \<and> truthy (last_modified_header head_resp)
              then (case strptime_http w (the (last_modified_header head_resp)) of
                      None \<Rightarrow> (Raise TimeFormatError, l1, s1)
                    | Some last_modified_date \<Rightarrow>
                        (case strptime_record w (updated_at r) of
                           None \<Rightarrow> (Raise TimeFormatError, l1, s1)
                         | Some record_update_date \<Rightarrow>
                             if last_modified_date \<le> record_update_date
                             then skip (id_col r)
                                    (ContentUpToDate last_modified_date record_update_date) l1 s1
                             else fetch_url w r ref head_resp l1 s1))
              else fetch_url w r ref head_resp l1 s1))"

text \<open>
  The last branch: neither an existing path nor a URL. It asks \<open>os.path.exists\<close> again;
  what follows that test in the source reads \<open>response\<close>, which this branch never assigns.
\<close>

definition process_missing :: "world \<Rightarrow> row \<Rightarrow> string \<Rightarrow> locals \<Rightarrow> state \<Rightarrow> flow \<times> locals \<times> state" where
  "process_missing w r ref l s =
     (if \<not> path_exists w ref then skip (id_col r) FileNotExist l s
      else (case strptime_record w (updated_at r) of
              None \<Rightarrow> (Raise TimeFormatError, l, s)
            | Some record_time \<Rightarrow>
                if getmtime w ref \<le> record_time
                then skip (id_col r) (FileUpToDateRaw (getmtime w ref) (updated_at r)) l s
                else (case response l of
                        None \<Rightarrow> (Raise (UnboundLocalError ''response''), l, s)
                      | Some resp \<Rightarrow>
                          (case convert_content w (Str ref)
                                  (Some (header_or_empty (content_type_header resp)))
                                  (id_col r) s of
                             (None, s1) \<Rightarrow> (Raise ConversionFailed, l, s1)
                           | (Some md, s1) \<Rightarrow> (Fall, l\<lparr>markdown_text := Some md\<rparr>, s1)))))"

text \<open>The \<open>if\<close>/\<open>elif\<close>/\<open>else\<close> chain on the shape of the reference.\<close>

definition fetch_and_convert :: "world \<Rightarrow> row \<Rightarrow> string \<Rightarrow> locals \<Rightarrow> state \<Rightarrow> flow \<times> locals \<times> state" where
  "fetch_and_convert w r ref l s =
     (if path_exists w ref then process_file w r ref l s
      else if CHR '','' \<in> set ref \<and> prefix ''http'' (lower ref) then process_selector w r ref l s
      else if prefix ''http'' (lower ref) then process_url w r ref l s
      else process_missing w r ref l s)"

text \<open>
  One iteration of the loop of \<open>process_content\<close>: the test of the reference, the body
  inside \<open>try\<close>, the final update (which reads \<open>markdown_text\<close>, and raises when it was
  never assigned), and the handler \<open>except Exception\<close>.
\<close>

definition handle :: "int \<Rightarrow> exn \<Rightarrow> locals \<Rightarrow> state \<Rightarrow> outcome \<times> locals \<times> state" where
  "handle i e l s =
     (Failed e, l, log_event (LogError i e) (s\<lparr>db := set_error i (ExcMsg e) (db s)\<rparr>))"

definition process_record :: "world \<Rightarrow> row \<Rightarrow> locals \<Rightarrow> state \<Rightarrow> outcome \<times> locals \<times> state" where
  "process_record w r l s =
     (if \<not> truthy (reference r) then (NoReference, l, s)
      else (case fetch_and_convert w r (the (reference r)) l s of
              (Skip m, l1, s1) \<Rightarrow> (Skipped m, l1, s1)
            | (Raise e, l1, s1) \<Rightarrow> handle (id_col r) e l1 s1
            | (Fall, l1, s1) \<Rightarrow>
                (case markdown_text l1 of
                   None \<Rightarrow> handle (id_col r) (UnboundLocalError ''markdown_text'') l1 s1
                 | Some md \<Rightarrow>
                     (Updated md, l1,
                      log_event (LogUpdated (id_col r))
                        (s1\<lparr>db := set_text (id_col r) md (sha1_hex w md) (db s1)\<rparr>)))))"

text \<open>The loop over the rows selected at the start, with the outcome of every record.\<close>

fun process_records ::
  "world \<Rightarrow> row list \<Rightarrow> locals \<Rightarrow> state \<Rightarrow> (int \<times> outcome) list \<times> locals \<times> state" where
  "process_records w [] l s = ([], l, s)"
| "process_records w (r # rs) l s =
     (case process_record w r l s of
        (oc, l1, s1) \<Rightarrow>
          (case process_records w rs l1 s1 of
             (ocs, l2, s2) \<Rightarrow> ((id_col r, oc) # ocs, l2, s2)))"

definition process_content :: "world \<Rightarrow> state \<Rightarrow> (int \<times> outcome) list \<times> state" where
  "process_content w s =
     (case process_records w (db s) \<lparr>markdown_text = None, response = None\<rparr> s of
        (ocs, l, s') \<Rightarrow> (ocs, s'))"

subsection \<open>The sync gateway\<close>

text \<open>
  One iteration of the loop of \<open>sync_records\<close>: update the row with this id, or insert
  one (the columns \<open>deleted\<close>, \<open>update_flg\<close> and \<open>error\<close> take their defaults). The
  columns \<open>title\<close> and \<open>text\<close> are declared NOT NULL: the statement raises when the
  remote record has \<open>null\<close> there.
\<close>

definition upsert :: "world \<Rightarrow> row list \<Rightarrow> remote_record \<Rightarrow> exn + row list" where
  "upsert w rows rr =
     (let hash_value = (if truthy (rr_text rr) then sha1_hex w (the (rr_text rr)) else [])
      in case rr_title rr of
           None \<Rightarrow> Inl IntegrityError
         | Some new_title \<Rightarrow>
             (case rr_text rr of
                None \<Rightarrow> Inl IntegrityError
              | Some new_text \<Rightarrow>
                  Inr (if list_ex (\<lambda>r. id_col r = rr_id rr) rows
                       then map (\<lambda>r. if id_col r = rr_id rr
                                      then r\<lparr>title := new_title, text_col := new_text,
                                             reference := rr_reference rr,
                                             group_id := rr_group_id rr,
                                             created_by := rr_created_by rr,
                                             created_at := rr_created_at rr,
                                             updated_at := rr_updated_at rr,
                                             hash := hash_value\<rparr>
                                      else r) rows
                       else rows @
                            [\<lparr>id_col = rr_id rr, title = new_title, text_col = new_text,
                              reference = rr_reference rr, group_id = rr_group_id rr,
                              created_by = rr_created_by rr, created_at = rr_created_at rr,
                              updated_at = rr_updated_at rr, deleted = 0, hash = hash_value,
                              update_flg = 0, error = None\<rparr>])))"

text \<open>The loop: it stops at the first record that raises, and the rows written for the
  records before it stay in the table.\<close>

fun upsert_all :: "world \<Rightarrow> row list \<Rightarrow> remote_record list \<Rightarrow> exn option \<times> row list" where
  "upsert_all w rows [] = (None, rows)"
| "upsert_all w rows (rr # rrs) =
     (case upsert w rows rr of
        Inl e \<Rightarrow> (Some e, rows)
      | Inr rows' \<Rightarrow> upsert_all w rows' rrs)"

definition sync_records :: "world \<Rightarrow> state \<Rightarrow> state" where
  "sync_records w s =
     (case get_records w of
        Inl e \<Rightarrow> log_event (LogSyncFailed e) s
      | Inr records \<Rightarrow>
          (case upsert_all w (db s) records of
             (None, rows) \<Rightarrow> s\<lparr>db := rows\<rparr>
           | (Some e, rows) \<Rightarrow> log_event (LogSyncFailed e) (s\<lparr>db := rows\<rparr>)))"

text \<open>\<open>update_records\<close>: one POST for every row with \<open>update_flg = 1\<close>; the outcome is
  logged, the table is not written.\<close>

definition push :: "world \<Rightarrow> state \<Rightarrow> row \<Rightarrow> state" where
  "push w s r =
     (case post_update w (id_col r) (text_col r) of
        Inl e \<Rightarrow> log_event (PostFailed (id_col r) e) s
      | Inr u \<Rightarrow> log_event (PostOk (id_col r)) s)"

definition update_records :: "world \<Rightarrow> state \<Rightarrow> state" where
  "update_records w s = foldl (push w) s (filter (\<lambda>r. update_flg r = 1) (db s))"

text \<open>\<open>init_database\<close> creates an empty table; \<open>main\<close> runs the three phases on it.\<close>

definition init_database :: state where
  "init_database = \<lparr>db = [], tmp_files = [], trace = []\<rparr>"

definition main :: "world \<Rightarrow> state" where
  "main w = update_records w (snd (process_content w (sync_records w init_database)))"

section \<open>Notions used to state the properties\<close>

text \<open>What an outcome leaves in the row of its record, and in the table.\<close>

fun apply_row :: "world \<Rightarrow> outcome \<Rightarrow> row \<Rightarrow> row" where
  "apply_row w NoReference r = r"
| "apply_row w (Skipped m) r = r\<lparr>error := Some m\<rparr>"
| "apply_row w (Failed e) r = r\<lparr>error := Some (ExcMsg e)\<rparr>"
| "apply_row w (Updated t) r = r\<lparr>text_col := t, hash := sha1_hex w t, update_flg := 1\<rparr>"

definition persist :: "world \<Rightarrow> int \<Rightarrow> outcome \<Rightarrow> row list \<Rightarrow> row list" where
  "persist w i oc rows = map (\<lambda>r. if id_col r = i then apply_row w oc r else r) rows"

fun persist_all :: "world \<Rightarrow> (int \<times> outcome) list \<Rightarrow> row list \<Rightarrow> row list" where
  "persist_all w [] rows = rows"
| "persist_all w ((i, oc) # ocs) rows = persist_all w ocs (persist w i oc rows)"

text \<open>The row with a given id.\<close>

definition lookup :: "int \<Rightarrow> row list \<Rightarrow> row option" where
  "lookup i rows = List.find (\<lambda>r. id_col r = i) rows"

text \<open>What the part of the loop body before the final update may have written.\<close>

definition body_effect :: "world \<Rightarrow> int \<Rightarrow> flow \<Rightarrow> locals \<Rightarrow> row list \<Rightarrow> row list \<Rightarrow> bool" where
  "body_effect w i fl l rows rows' =
     (case fl of
        Skip m \<Rightarrow> rows' = set_error i m rows
      | Raise e \<Rightarrow> rows' = rows \<or> (\<exists>e'. rows' = set_error i (ExcMsg e') rows)
      | Fall \<Rightarrow> rows' = rows \<or>
                (\<exists>md. markdown_text l = Some md \<and> rows' = set_text i md (sha1_hex w md) rows))"

text \<open>The invariant of the column \<open>hash\<close>.\<close>

definition hash_inv :: "world \<Rightarrow> row list \<Rightarrow> bool" where
  "hash_inv w rows = list_all (\<lambda>r. update_flg r = 1 \<longrightarrow> hash r = sha1_hex w (text_col r)) rows"

text \<open>The columns the pipeline does not write.\<close>

definition frame :: "row \<Rightarrow> int \<times> string \<times> string option \<times> int \<times> string \<times> string \<times> string \<times> int" where
  "frame r = (id_col r, title r, reference r, group_id r, created_by r, created_at r,
              updated_at r, deleted r)"

text \<open>One pass of the pipeline over the table, as a function on states.\<close>

definition pass :: "world \<Rightarrow> state \<Rightarrow> state" where
  "pass w s = snd (process_content w s)"

text \<open>The reference of the row names a readable file that is newer than \<open>updated_at\<close>.\<close>

definition newer_file :: "world \<Rightarrow> row \<Rightarrow> string \<Rightarrow> string \<Rightarrow> bool" where
  "newer_file w r ref b =
     (reference r = Some ref \<and> ref \<noteq> [] \<and> path_exists w ref \<and> read_file w ref = Inr b \<and>
      (case strptime_record w (updated_at r) of
         None \<Rightarrow> False
       | Some record_time \<Rightarrow> record_time < getmtime w ref))"

text \<open>The line \<open>update_records\<close> logs for a row.\<close>

definition push_event :: "world \<Rightarrow> row \<Rightarrow> event" where
  "push_event w r =
     (case post_update w (id_col r) (text_col r) of
        Inl e \<Rightarrow> PostFailed (id_col r) e
      | Inr u \<Rightarrow> PostOk (id_col r))"

section \<open>A concrete world\<close>

text \<open>
  Three local files (a text file older than the records, a text file and a Word document
  newer than them), one page served as HTML in which only the selector \<open>p\<close> matches, a
  converter that succeeds on bytes, and a remote store with two records. The digest is a
  stand-in: no statement evaluated in this world depends on which function it is.
\<close>

definition html_page :: response where
  "html_page = \<lparr>content_type_header = Some ''text/html; charset=utf-8'',
                 last_modified_header = None,
                 body = ''<html><p>hi</p></html>'',
                 body_text = ''<html><p>hi</p></html>''\<rparr>"

definition remote_row :: "int \<Rightarrow> string \<Rightarrow> string \<Rightarrow> remote_record" where
  "remote_row i t ref =
     \<lparr>rr_id = i, rr_title = Some ''title'', rr_text = Some t, rr_reference = Some ref,
      rr_group_id = 1,
      rr_created_by = ''user'', rr_created_at = ''2020-01-01 00:00:00'',
      rr_updated_at = ''2020-01-01 00:00:00''\<rparr>"

definition example_world :: world where
  "example_world =
     \<lparr>sha1_hex = (\<lambda>t. ''sha1 of '' @ t),
      decode_utf8 = (\<lambda>b. b),
      strptime_record = (\<lambda>t. if t = ''2020-01-01 00:00:00'' then Some 1577836800 else None),
      strptime_http =
        (\<lambda>t. if t = ''Tue, 01 Jan 2019 00:00:00 GMT'' then Some 1546300800 else None),
      path_exists =
        (\<lambda>p. p = ''/tmp/notes.txt'' \<or> p = ''/tmp/report.docx'' \<or> p = ''/tmp/new.txt''),
      getmtime = (\<lambda>p. if p = ''/tmp/notes.txt'' then 1500000000 else 1600000000),
      read_file =
        (\<lambda>p. if p = ''/tmp/notes.txt'' then Inr ''hello''
             else if p = ''/tmp/report.docx'' then Inr (zip_magic @ ''[Content_Types].xml'')
             else if p = ''/tmp/new.txt'' then Inr ''fresh''
             else Inl (External ''No such file or directory'')),
      http_head = (\<lambda>u. Inl (External ''connection refused'')),
      http_get = (\<lambda>u. if u = ''https://example.org/a'' then Inr html_page
                       else Inl (External ''connection refused'')),
      select_one = (\<lambda>page selector. if selector = ''p'' then Inr (Some ''hi'') else Inr None),
      md_convert = (\<lambda>path c. case c of Bytes b \<Rightarrow> Converted (''text of '' @ path)
                                      | Str t \<Rightarrow> ReturnedNone),
      now = ''20240101000000'',
      get_records = Inr [remote_row 1 [] ''/tmp/notes.txt'',
                         remote_row 2 ''old'' ''https://example.org/a,p''],
      post_update = (\<lambda>i t. Inr ())\<rparr>"

definition example_row :: "int \<Rightarrow> string \<Rightarrow> string \<Rightarrow> row" where
  "example_row i t ref =
     \<lparr>id_col = i, title = ''title'', text_col = t, reference = Some ref, group_id = 1,
      created_by = ''user'', created_at = ''2020-01-01 00:00:00'',
      updated_at = ''2020-01-01 00:00:00'', deleted = 0,
      hash = (if t = [] then [] else ''sha1 of '' @ t), update_flg = 0, error = None\<rparr>"

definition example_state :: "row list \<Rightarrow> state" where
  "example_state rows = \<lparr>db = rows, tmp_files = [], trace = []\<rparr>"

text \<open>The same world with an external converter that raises on every file.\<close>

definition failing_converter_world :: world where
  "failing_converter_world =
     example_world\<lparr>md_convert := (\<lambda>path c. Raised (External ''file is corrupt''))\<rparr>"

text \<open>A table of three records: a text file, the Word document, and a \<open>URL,selector\<close>
  pair whose selector matches nothing.\<close>

definition mixed_batch :: state where
  "mixed_batch =
     example_state
       [example_row 1 [] ''/tmp/notes.txt'',
        example_row 2 [] ''/tmp/report.docx'',
        example_row 3 ''old'' ''https://example.org/a,div.content'']"

lemmas example_defs =
  example_world_def example_row_def example_state_def html_page_def remote_row_def

section \<open>What each step writes\<close>

text \<open>
  The table after one record is the table before it with the record's outcome applied to
  the rows of its id: the conversion writes at most the column \<open>error\<close>, and the loop
  body writes the message of a skip, the text of a success, or the exception.
\<close>

lemma set_error_twice: "set_error i m (set_error i m' rows) = set_error i m rows"
  by (induction rows) (simp_all add: set_error_def)

lemma set_text_twice: "set_text i t h (set_text i t' h' rows) = set_text i t h rows"
  by (induction rows) (simp_all add: set_text_def)

lemma db_log_event: "db (log_event e s) = db s"
  by (simp add: log_event_def)

lemma save_temp_file_db: "save_temp_file w c ft s = (r, s') \<Longrightarrow> db s' = db s"
  by (auto simp: save_temp_file_def Let_def split: list.splits content.splits)

lemma convert_file_db: "convert_file w tf c s = (r, s') \<Longrightarrow> db s' = db s"
  by (auto simp: convert_file_def Let_def db_log_event)

lemma convert_content_Some:
  "convert_content w c ct i s = (Some t, s') \<Longrightarrow> db s' = db s"
  by (auto simp: convert_content_def Let_def db_log_event
      split: sum.splits option.splits if_splits prod.splits
      dest!: save_temp_file_db convert_file_db)

lemma convert_content_None:
  "convert_content w c ct i s = (None, s') \<Longrightarrow> \<exists>e. db s' = set_error i (ExcMsg e) (db s)"
  by (auto simp: convert_content_def Let_def db_log_event
      split: sum.splits option.splits if_splits prod.splits
      dest!: save_temp_file_db convert_file_db)

lemma process_file_effect:
  "process_file w r ref l s = (fl, l', s') \<Longrightarrow> body_effect w (id_col r) fl l' (db s) (db s')"
  by (auto simp: process_file_def body_effect_def skip_def Let_def db_log_event
      split: option.splits if_splits sum.splits prod.splits
      dest!: convert_content_Some convert_content_None)

lemma process_selector_effect:
  "process_selector w r ref l s = (fl, l', s') \<Longrightarrow> body_effect w (id_col r) fl l' (db s) (db s')"
  by (auto simp: process_selector_def body_effect_def skip_def Let_def db_log_event
      split: option.splits if_splits sum.splits prod.splits
      dest!: convert_content_Some convert_content_None)

lemma fetch_url_effect:
  "fetch_url w r ref h l s = (fl, l', s') \<Longrightarrow> body_effect w (id_col r) fl l' (db s) (db s')"
  by (auto simp: fetch_url_def body_effect_def skip_def Let_def db_log_event
      split: option.splits if_splits sum.splits prod.splits
      dest!: convert_content_Some convert_content_None)

lemma process_url_effect:
  "process_url w r ref l s = (fl, l', s') \<Longrightarrow> body_effect w (id_col r) fl l' (db s) (db s')"
  by (auto simp: process_url_def Let_def skip_def db_log_event
      split: option.splits if_splits sum.splits
      dest!: fetch_url_effect) (auto simp: body_effect_def)

lemma process_missing_effect:
  "process_missing w r ref l s = (fl, l', s') \<Longrightarrow> body_effect w (id_col r) fl l' (db s) (db s')"
  by (auto simp: process_missing_def body_effect_def skip_def Let_def db_log_event
      split: option.splits if_splits sum.splits prod.splits
      dest!: convert_content_Some convert_content_None)

lemma fetch_and_convert_effect:
  "fetch_and_convert w r ref l s = (fl, l', s') \<Longrightarrow> body_effect w (id_col r) fl l' (db s) (db s')"
  by (auto simp: fetch_and_convert_def split: if_splits
      dest: process_file_effect process_selector_effect process_url_effect process_missing_effect)

lemma persist_simps:
  "persist w i NoReference rows = rows"
  "persist w i (Skipped m) rows = set_error i m rows"
  "persist w i (Failed e) rows = set_error i (ExcMsg e) rows"
  "persist w i (Updated t) rows = set_text i t (sha1_hex w t) rows"
  by (simp_all add: persist_def set_error_def set_text_def map_idI)

lemma process_record_db:
  assumes "process_record w r l s = (oc, l', s')"
  shows "db s' = persist w (id_col r) oc (db s)"
proof (cases "truthy (reference r)")
  case False
  with assms show ?thesis by (auto simp: process_record_def persist_simps)
next
  case True
  obtain fl l1 s1 where f: "fetch_and_convert w r (the (reference r)) l s = (fl, l1, s1)"
    by (cases "fetch_and_convert w r (the (reference r)) l s") auto
  from fetch_and_convert_effect [OF f]
  have e: "body_effect w (id_col r) fl l1 (db s) (db s1)" .
  show ?thesis
  proof (cases fl)
    case (Skip m)
    with assms True f e show ?thesis
      by (auto simp: process_record_def persist_simps body_effect_def)
  next
    case (Raise x)
    with assms True f e show ?thesis
      by (auto simp: process_record_def persist_simps body_effect_def handle_def db_log_event
          set_error_twice)
  next
    case Fall
    with assms True f e show ?thesis
      by (auto simp: process_record_def persist_simps body_effect_def handle_def db_log_event
          set_text_twice split: option.splits)
  qed
qed

lemma process_records_ids:
  "process_records w rs l s = (ocs, l', s') \<Longrightarrow> map fst ocs = map id_col rs"
  by (induction rs arbitrary: l s ocs l' s') (auto split: prod.splits)

lemma process_records_db:
  "process_records w rs l s = (ocs, l', s') \<Longrightarrow> db s' = persist_all w ocs (db s)"
proof (induction rs arbitrary: l s ocs l' s')
  case Nil
  then show ?case by simp
next
  case (Cons r rs)
  then show ?case
    by (auto split: prod.splits dest!: process_record_db)
qed

lemma id_col_apply_row: "id_col (apply_row w oc r) = id_col r"
  by (cases oc) simp_all

lemma lookup_persist:
  "lookup i (persist w j oc rows) =
     (if i = j then map_option (apply_row w oc) (lookup i rows) else lookup i rows)"
  by (induction rows) (auto simp: lookup_def persist_def id_col_apply_row)

lemma lookup_persist_all:
  "distinct (map fst ocs) \<Longrightarrow>
   lookup i (persist_all w ocs rows) =
     (case map_of ocs i of
        None \<Rightarrow> lookup i rows
      | Some oc \<Rightarrow> map_option (apply_row w oc) (lookup i rows))"
proof (induction ocs arbitrary: rows)
  case Nil
  then show ?case by simp
next
  case (Cons p ocs)
  obtain j oc where p: "p = (j, oc)" by (cases p)
  from Cons.prems p have nj: "map_of ocs j = None" and d: "distinct (map fst ocs)"
    by (auto simp: map_of_eq_None_iff)
  show ?case
    using Cons.IH [OF d, of "persist w j oc rows"] nj
    by (auto simp: p lookup_persist split: option.splits)
qed

lemma lookup_set_error:
  "lookup i (set_error i m rows) = map_option (\<lambda>r. r\<lparr>error := Some m\<rparr>) (lookup i rows)"
  by (induction rows) (auto simp: lookup_def set_error_def)

lemma lookup_Some_iff: "i \<in> set (map id_col rows) \<Longrightarrow> \<exists>r. lookup i rows = Some r"
  by (induction rows) (auto simp: lookup_def)

lemma process_content_rows:
  assumes "distinct (map id_col (db s))" and "process_content w s = (ocs, s')"
    and "(i, oc) \<in> set ocs"
  shows "\<exists>r. lookup i (db s) = Some r \<and> lookup i (db s') = Some (apply_row w oc r)"
proof -
  obtain l' where pr: "process_records w (db s) \<lparr>markdown_text = None, response = None\<rparr> s = (ocs, l', s')"
    using assms(2) by (auto simp: process_content_def split: prod.splits)
  have ids: "map fst ocs = map id_col (db s)" by (rule process_records_ids [OF pr])
  with assms(1) have d: "distinct (map fst ocs)" by simp
  with assms(3) have m: "map_of ocs i = Some oc" by simp
  from assms(3) ids have "i \<in> set (map id_col (db s))"
    by (metis image_eqI fst_conv set_map)
  then obtain r where r: "lookup i (db s) = Some r" using lookup_Some_iff by blast
  have "lookup i (db s') = map_option (apply_row w oc) (lookup i (db s))"
    using lookup_persist_all [OF d, of i w "db s"] m process_records_db [OF pr] by simp
  with r show ?thesis by simp
qed

section \<open>The fingerprint, the flag and the frame\<close>

lemma hash_inv_persist: "hash_inv w rows \<Longrightarrow> hash_inv w (persist w i oc rows)"
  by (cases oc) (auto simp: hash_inv_def persist_def list_all_iff)

lemma hash_inv_persist_all: "hash_inv w rows \<Longrightarrow> hash_inv w (persist_all w ocs rows)"
  by (induction ocs arbitrary: rows) (auto simp: hash_inv_persist)

lemma hash_inv_pass: "hash_inv w (db s) \<Longrightarrow> hash_inv w (db (snd (process_content w s)))"
  by (auto simp: process_content_def split: prod.splits
      dest!: process_records_db intro: hash_inv_persist_all)

lemma db_push: "db (push w s r) = db s"
  by (simp add: push_def db_log_event split: sum.splits)

lemma db_foldl_push: "db (foldl (push w) s rs) = db s"
  by (induction rs arbitrary: s) (simp_all add: db_push)

lemma db_update_records: "db (update_records w s) = db s"
  by (simp add: update_records_def db_foldl_push)

lemma flags_upsert:
  "upsert w rows rr = Inr rows' \<Longrightarrow>
   map update_flg rows' =
     map update_flg rows @ (if list_ex (\<lambda>r. id_col r = rr_id rr) rows then [] else [0])"
  by (auto simp: upsert_def Let_def comp_def split: option.splits cong: map_cong)

lemma flags_upsert_all:
  "upsert_all w rows rrs = (eo, rows') \<Longrightarrow>
   \<exists>n. map update_flg rows' = map update_flg rows @ replicate n 0"
proof (induction rrs arbitrary: rows)
  case Nil
  then have "map update_flg rows' = map update_flg rows @ replicate 0 0" by simp
  then show ?case by blast
next
  case (Cons rr rrs)
  show ?case
  proof (cases "upsert w rows rr")
    case (Inl e)
    with Cons.prems have "map update_flg rows' = map update_flg rows @ replicate 0 0" by simp
    then show ?thesis by blast
  next
    case (Inr rows1)
    with Cons.prems have "upsert_all w rows1 rrs = (eo, rows')" by simp
    from Cons.IH [OF this] obtain n where
      n: "map update_flg rows' = map update_flg rows1 @ replicate n 0" by blast
    show ?thesis
    proof (cases "list_ex (\<lambda>r. id_col r = rr_id rr) rows")
      case True
      with n flags_upsert [OF Inr] show ?thesis by auto
    next
      case False
      with n flags_upsert [OF Inr]
      have "map update_flg rows' = map update_flg rows @ replicate (Suc n) 0" by simp
      then show ?thesis by blast
    qed
  qed
qed

lemma flags_sync_records:
  "\<exists>n. map update_flg (db (sync_records w s)) = map update_flg (db s) @ replicate n 0"
proof (cases "get_records w")
  case (Inl e)
  then have "map update_flg (db (sync_records w s)) = map update_flg (db s) @ replicate 0 0"
    by (simp add: sync_records_def db_log_event)
  then show ?thesis by blast
next
  case (Inr rrs)
  obtain eo rows' where u: "upsert_all w (db s) rrs = (eo, rows')"
    by (cases "upsert_all w (db s) rrs")
  from Inr u have "db (sync_records w s) = rows'"
    by (cases eo) (simp_all add: sync_records_def db_log_event)
  with flags_upsert_all [OF u] show ?thesis by simp
qed

lemma hash_inv_unflagged: "set (map update_flg rows) \<subseteq> {0} \<Longrightarrow> hash_inv w rows"
  by (auto simp: hash_inv_def list_all_iff)

lemma hash_inv_main: "hash_inv w (db (main w))"
proof -
  obtain n where "map update_flg (db (sync_records w init_database)) = replicate n 0"
    using flags_sync_records [of w init_database] by (auto simp: init_database_def)
  then have "set (map update_flg (db (sync_records w init_database))) \<subseteq> {0}"
    by (metis set_replicate_conv_if empty_subsetI subset_refl)
  then have "hash_inv w (db (sync_records w init_database))" by (rule hash_inv_unflagged)
  then show ?thesis by (simp add: main_def db_update_records hash_inv_pass)
qed

lemma frame_persist: "map frame (persist w i oc rows) = map frame rows"
  by (cases oc) (simp_all add: persist_def frame_def)

lemma frame_persist_all: "map frame (persist_all w ocs rows) = map frame rows"
  by (induction ocs arbitrary: rows) (auto simp: frame_persist)

lemma frame_pass: "map frame (db (pass w s)) = map frame (db s)"
  by (auto simp: pass_def process_content_def split: prod.splits
      dest!: process_records_db simp: frame_persist_all)

section \<open>The classifier on the PDF magic number\<close>

lemma claimed_kind_None_plain:
  "claimed_kind ct = None \<Longrightarrow> \<not> contains ''text/plain'' (lower ct)"
  by (auto simp: claimed_kind_def file_types_def split: if_splits)

lemma magic_pdf:
  "prefix ''%PDF'' b \<Longrightarrow>
   List.find (\<lambda>ft. list_ex (\<lambda>magic. prefix magic (take 32 b)) (magic_numbers ft)) file_types
     = Some Pdf"
  by (auto simp: file_types_def prefix_def ole2_magic_def zip_magic_def)

section \<open>The trace only grows\<close>

lemma trace_log_event: "trace (log_event e s) = e # trace s"
  by (simp add: log_event_def)

lemma save_temp_file_trace: "save_temp_file w c ft s = (r, s') \<Longrightarrow> trace s' = trace s"
  by (auto simp: save_temp_file_def Let_def split: list.splits content.splits)

lemma convert_file_trace: "convert_file w tf c s = (r, s') \<Longrightarrow> trace s' = MdConvert tf # trace s"
  by (auto simp: convert_file_def Let_def trace_log_event)

lemma convert_content_trace:
  "convert_content w c ct i s = (res, s') \<Longrightarrow> suffix (ConvertContent i # trace s) (trace s')"
  by (auto simp: convert_content_def Let_def trace_log_event suffix_ConsI
      split: sum.splits option.splits if_splits prod.splits
      dest!: save_temp_file_trace convert_file_trace)

lemma process_file_trace:
  "process_file w r ref l s = (fl, l', s') \<Longrightarrow> suffix (trace s) (trace s')"
  by (auto simp: process_file_def skip_def Let_def trace_log_event
      split: option.splits if_splits sum.splits prod.splits
      dest!: convert_content_trace [unfolded suffix_def] intro!: suffix_appendI suffix_ConsI suffix_order.refl)

lemma process_selector_trace:
  "process_selector w r ref l s = (fl, l', s') \<Longrightarrow> suffix (trace s) (trace s')"
  by (auto simp: process_selector_def skip_def Let_def trace_log_event
      split: option.splits if_splits sum.splits prod.splits
      dest!: convert_content_trace [unfolded suffix_def] intro!: suffix_appendI suffix_ConsI suffix_order.refl)

lemma fetch_url_trace:
  "fetch_url w r ref h l s = (fl, l', s') \<Longrightarrow> suffix (trace s) (trace s')"
  by (auto simp: fetch_url_def skip_def Let_def trace_log_event
      split: option.splits if_splits sum.splits prod.splits
      dest!: convert_content_trace [unfolded suffix_def] intro!: suffix_appendI suffix_ConsI suffix_order.refl)

lemma process_url_trace:
  "process_url w r ref l s = (fl, l', s') \<Longrightarrow> suffix (trace s) (trace s')"
  by (auto simp: process_url_def skip_def Let_def trace_log_event
      split: option.splits if_splits sum.splits prod.splits
      dest!: fetch_url_trace [unfolded suffix_def] intro!: suffix_appendI suffix_ConsI suffix_order.refl)

lemma process_missing_trace:
  "process_missing w r ref l s = (fl, l', s') \<Longrightarrow> suffix (trace s) (trace s')"
  by (auto simp: process_missing_def skip_def Let_def trace_log_event
      split: option.splits if_splits sum.splits prod.splits
      dest!: convert_content_trace [unfolded suffix_def] intro!: suffix_appendI suffix_ConsI suffix_order.refl)

lemma fetch_and_convert_trace:
  "fetch_and_convert w r ref l s = (fl, l', s') \<Longrightarrow> suffix (trace s) (trace s')"
  by (auto simp: fetch_and_convert_def split: if_splits
      dest: process_file_trace process_selector_trace process_url_trace process_missing_trace)

lemma process_record_trace:
  "process_record w r l s = (oc, l', s') \<Longrightarrow> suffix (trace s) (trace s')"
  by (auto simp: process_record_def handle_def trace_log_event
      split: if_splits prod.splits flow.splits option.splits
      dest!: fetch_and_convert_trace [unfolded suffix_def] intro!: suffix_appendI suffix_ConsI suffix_order.refl)

lemma process_records_trace:
  "process_records w rs l s = (ocs, l', s') \<Longrightarrow> suffix (trace s) (trace s')"
proof (induction rs arbitrary: l s ocs l' s')
  case Nil
  then show ?case by simp
next
  case (Cons r rs)
  then show ?case
    by (auto split: prod.splits dest!: process_record_trace intro: suffix_order.trans)
qed

lemma push_log: "push w s r = log_event (push_event w r) s"
  by (simp add: push_def push_event_def split: sum.splits)

lemma trace_foldl_push: "trace (foldl (push w) s rs) = rev (map (push_event w) rs) @ trace s"
  by (induction rs arbitrary: s) (simp_all add: push_log trace_log_event)

lemma newer_file_frame: "frame r' = frame r \<Longrightarrow> newer_file w r' ref b = newer_file w r ref b"
  by (simp add: frame_def newer_file_def)

lemma process_record_newer:
  assumes "newer_file w r ref b" and "process_record w r l s = (oc, l', s')"
  shows "suffix (ConvertContent (id_col r) # ReadFile ref # trace s) (trace s')"
proof -
  from assms(1) obtain t where h: "reference r = Some ref" "ref \<noteq> []" "path_exists w ref"
    "read_file w ref = Inr b" "strptime_record w (updated_at r) = Some t" "t < getmtime w ref"
    by (auto simp: newer_file_def split: option.splits)
  obtain res s1 where c: "convert_content w (Bytes b)
      (Some (guess_content_type (lower (splitext ref)))) (id_col r) (log_event (ReadFile ref) s)
      = (res, s1)"
    by (cases "convert_content w (Bytes b)
      (Some (guess_content_type (lower (splitext ref)))) (id_col r) (log_event (ReadFile ref) s)")
  from convert_content_trace [OF c]
  have s1: "suffix (ConvertContent (id_col r) # ReadFile ref # trace s) (trace s1)"
    by (simp add: trace_log_event)
  from assms(2) h c have "suffix (trace s1) (trace s')"
    by (cases res)
      (auto simp: process_record_def fetch_and_convert_def process_file_def Let_def handle_def
        trace_log_event intro!: suffix_ConsI suffix_order.refl)
  with s1 show ?thesis by (rule suffix_order.trans)
qed

lemma process_records_newer:
  assumes "r \<in> set rs" and "newer_file w r ref b"
    and "process_records w rs l s = (ocs, l', s')"
  shows "\<exists>es. trace s' = es @ trace s \<and> ReadFile ref \<in> set es \<and> ConvertContent (id_col r) \<in> set es"
  using assms
proof (induction rs arbitrary: l s ocs l' s')
  case Nil
  then show ?case by simp
next
  case (Cons x rs)
  obtain oc l1 s1 where x: "process_record w x l s = (oc, l1, s1)"
    by (cases "process_record w x l s")
  obtain ocs1 where rest: "process_records w rs l1 s1 = (ocs1, l', s')"
    using Cons.prems(3) x by (auto split: prod.splits)
  from process_record_trace [OF x] obtain e1 where e1: "trace s1 = e1 @ trace s"
    by (auto simp: suffix_def)
  from process_records_trace [OF rest] obtain e2 where e2: "trace s' = e2 @ trace s1"
    by (auto simp: suffix_def)
  show ?case
  proof (cases "x = r")
    case True
    from process_record_newer [OF Cons.prems(2) x [unfolded True]]
    obtain e3 where "trace s1 = e3 @ ConvertContent (id_col r) # ReadFile ref # trace s"
      by (auto simp: suffix_def)
    with e2 have "trace s' = (e2 @ e3 @ [ConvertContent (id_col r), ReadFile ref]) @ trace s"
      by simp
    then show ?thesis
      by (intro exI [of _ "e2 @ e3 @ [ConvertContent (id_col r), ReadFile ref]"]) simp
  next
    case False
    with Cons.prems(1) have "r \<in> set rs" by simp
    from Cons.IH [OF this Cons.prems(2) rest] obtain es where
      es: "trace s' = es @ trace s1" "ReadFile ref \<in> set es" "ConvertContent (id_col r) \<in> set es"
      by blast
    with e1 have "trace s' = (es @ e1) @ trace s" by simp
    with es(2,3) show ?thesis
      by (intro exI [of _ "es @ e1"]) simp
  qed
qed

lemma pass_newer:
  assumes "r \<in> set (db s)" and "newer_file w r ref b"
  shows "\<exists>es. trace (pass w s) = es @ trace s \<and> ReadFile ref \<in> set es \<and>
              ConvertContent (id_col r) \<in> set es"
proof -
  obtain ocs l' s' where p:
    "process_records w (db s) \<lparr>markdown_text = None, response = None\<rparr> s = (ocs, l', s')"
    by (cases "process_records w (db s) \<lparr>markdown_text = None, response = None\<rparr> s")
  then have "pass w s = s'" by (simp add: pass_def process_content_def)
  with process_records_newer [OF assms p] show ?thesis by simp
qed

lemma frame_passes: "map frame (db ((pass w ^^ n) s)) = map frame (db s)"
  by (induction n) (simp_all add: frame_pass)

lemma frame_member:
  assumes "map frame rows' = map frame rows" and "r \<in> set rows"
  shows "\<exists>r' \<in> set rows'. frame r' = frame r"
proof -
  from assms(2) have "frame r \<in> set (map frame rows)" by simp
  with assms(1) have "frame r \<in> set (map frame rows')" by simp
  then show ?thesis by auto
qed

lemma convert_content_bytes_cleans:
  "convert_content w (Bytes b) ct i s = (res, s') \<Longrightarrow> set (tmp_files s') \<subseteq> set (tmp_files s)"
  by (auto simp: convert_content_def convert_file_def save_temp_file_def log_event_def Let_def
      split: sum.splits option.splits if_splits prod.splits list.splits)

section \<open>The claims\<close>

subsection \<open>C1: failure isolation\<close>

text \<open>
  The loop itself never stops early: a batch in two parts is processed as the first part,
  then the second part from the state and the local variables the first part left,
  whatever the outcomes of the first part were.
\<close>

lemma process_records_append:
  "process_records w (xs @ ys) l s =
     (case process_records w xs l s of
        (ocs1, l1, s1) \<Rightarrow>
          (case process_records w ys l1 s1 of
             (ocs2, l2, s2) \<Rightarrow> (ocs1 @ ocs2, l2, s2)))"
  by (induction xs arbitrary: l s) (simp_all split: prod.splits)

text \<open>
  C1 holds of the specification and fails in the code. A failure that raises is caught by
  the handler of the loop body, written into \<open>error\<close> of its record, and the records after
  it are processed: so for the conversion that fails (record 2 below, when the external
  converter raises) and for a server that does not answer (the last batch below). But a
  selector that matches nothing, a fetch failure, raises nothing: the branch assigns
  nothing and the final update stores what the variable \<open>markdown_text\<close> holds from an
  earlier record. Record 3 below ends as a success with nothing written into its
  \<open>error\<close>, and the text it is stored with is the text of record 2 when the conversion of
  record 2 succeeded, and the text of record 1 when it failed: the failure of one record
  decides what another record is persisted with.
\<close>

theorem failure_leaks_into_later_record:
  "process_content example_world mixed_batch
     = ([(1, Updated ''hello''),
         (2, Updated ''text of temp_20240101000000.doc''),
         (3, Updated ''text of temp_20240101000000.doc'')],
        \<lparr>db = [(example_row 1 [] ''/tmp/notes.txt'')
                  \<lparr>text_col := ''hello'', hash := ''sha1 of hello'', update_flg := 1\<rparr>,
                (example_row 2 [] ''/tmp/report.docx'')
                  \<lparr>text_col := ''text of temp_20240101000000.doc'',
                   hash := ''sha1 of text of temp_20240101000000.doc'', update_flg := 1\<rparr>,
                (example_row 3 ''old'' ''https://example.org/a,div.content'')
                  \<lparr>text_col := ''text of temp_20240101000000.doc'',
                   hash := ''sha1 of text of temp_20240101000000.doc'', update_flg := 1\<rparr>],
         tmp_files = [],
         trace = [LogUpdated 3, HttpGet ''https://example.org/a'',
                  LogUpdated 2, LogUpdated 2, MdConvert ''temp_20240101000000.doc'',
                  ConvertContent 2, ReadFile ''/tmp/report.docx'',
                  LogUpdated 1, LogUpdated 1, ConvertContent 1,
                  ReadFile ''/tmp/notes.txt'']\<rparr>) \<and>
   process_content failing_converter_world mixed_batch
     = ([(1, Updated ''hello''),
         (2, Failed ConversionFailed),
         (3, Updated ''hello'')],
        \<lparr>db = [(example_row 1 [] ''/tmp/notes.txt'')
                  \<lparr>text_col := ''hello'', hash := ''sha1 of hello'', update_flg := 1\<rparr>,
                (example_row 2 [] ''/tmp/report.docx'')
                  \<lparr>error := Some (ExcMsg ConversionFailed)\<rparr>,
                (example_row 3 ''old'' ''https://example.org/a,div.content'')
                  \<lparr>text_col := ''hello'', hash := ''sha1 of hello'', update_flg := 1\<rparr>],
         tmp_files = [],
         trace = [LogUpdated 3, HttpGet ''https://example.org/a'',
                  LogError 2 ConversionFailed, MdConvert ''temp_20240101000000.doc'',
                  ConvertContent 2, ReadFile ''/tmp/report.docx'',
                  LogUpdated 1, LogUpdated 1, ConvertContent 1,
                  ReadFile ''/tmp/notes.txt'']\<rparr>) \<and>
   process_content example_world
       (example_state [example_row 1 [] ''https://example.org/gone'',
                       example_row 2 [] ''/tmp/notes.txt''])
     = ([(1, Failed (External ''connection refused'')), (2, Updated ''hello'')],
        \<lparr>db = [(example_row 1 [] ''https://example.org/gone'')
                  \<lparr>error := Some (ExcMsg (External ''connection refused''))\<rparr>,
                (example_row 2 [] ''/tmp/notes.txt'')
                  \<lparr>text_col := ''hello'', hash := ''sha1 of hello'', update_flg := 1\<rparr>],
         tmp_files = [],
         trace = [LogUpdated 2, LogUpdated 2, ConvertContent 2, ReadFile ''/tmp/notes.txt'',
                  LogError 1 (External ''connection refused''),
                  HttpHead ''https://example.org/gone'']\<rparr>)"
  by code_simp

subsection \<open>C2: the fingerprint of a flagged row\<close>

text \<open>
  C2. After a run of the program (\<open>main\<close>: an empty table, pull, pipeline, push), every
  row with \<open>update_flg = 1\<close> has in \<open>hash\<close> the SHA-1 fingerprint of its \<open>text\<close>. The
  pipeline keeps this invariant from any table: each of its writes that sets the flag
  stores the text and its fingerprint together. No other operation sets the flag: the
  push does not write the table, and the pull leaves the flag of every row it finds as it
  is and inserts rows with flag 0.
\<close>

theorem hash_matches_text_when_flagged:
  "hash_inv w (db (main w)) \<and>
   (hash_inv w (db s) \<longrightarrow> hash_inv w (db (snd (process_content w s)))) \<and>
   db (update_records w s) = db s \<and>
   (\<exists>n. map update_flg (db (sync_records w s)) = map update_flg (db s) @ replicate n 0)"
  using hash_inv_main hash_inv_pass db_update_records flags_sync_records by blast

theorem hash_matches_text_when_flagged_witness:
  "hash_inv example_world (db (example_state [example_row 1 [] ''/tmp/notes.txt''])) \<and>
   hash_inv example_world (db (snd (process_content example_world
       (example_state [example_row 1 [] ''/tmp/notes.txt''])))) \<and>
   map update_flg (db (snd (process_content example_world
       (example_state [example_row 1 [] ''/tmp/notes.txt'']))))  = [1] \<and>
   hash_inv example_world (db (main example_world)) \<and>
   map update_flg (db (main example_world)) = [1, 0]"
proof -
  let ?s = "example_state [example_row 1 [] ''/tmp/notes.txt'']"
  have h: "hash_inv example_world (db ?s)" by (simp add: hash_inv_def example_defs)
  have f: "map update_flg (db (snd (process_content example_world ?s))) = [1]"
    by code_simp
  have m: "map update_flg (db (main example_world)) = [1, 0]"
    by code_simp
  from hash_matches_text_when_flagged [of example_world ?s] h f m show ?thesis by blast
qed

subsection \<open>C3: the PDF magic number\<close>

text \<open>
  C3, as stated, fails: the claimed content type is looked at first, and a type of the
  registry wins over the bytes. Content that begins with \<open>%PDF\<close> and is claimed to be
  \<open>text/html\<close> is classified as html.
\<close>

theorem pdf_magic_counterexample:
  "prefix ''%PDF'' ''%PDF-1.7'' \<and>
   detect_file_type (Bytes ''%PDF-1.7'') (Some ''text/html'') = Inr (Some Html)"
  by (simp add: detect_file_type_def claimed_kind_def file_types_def lower_def lower_char_def)

text \<open>
  C3, amended. Bytes that begin with \<open>%PDF\<close> are classified as pdf whenever no claimed
  content type is supplied (none, or the empty string), or the claimed type holds no
  content type of the registry, or the first kind of the registry it matches is pdf.
\<close>

theorem pdf_magic_unless_claimed_otherwise:
  assumes "prefix ''%PDF'' b"
    and "\<not> truthy ct \<or> claimed_kind (the ct) = None \<or> claimed_kind (the ct) = Some Pdf"
  shows "detect_file_type (Bytes b) ct = Inr (Some Pdf)"
proof -
  from assms(2) consider "\<not> truthy ct" | "truthy ct" "claimed_kind (the ct) = None"
    | "truthy ct" "claimed_kind (the ct) = Some Pdf" by auto
  then show ?thesis
  proof cases
    case 1
    then show ?thesis by (simp add: detect_file_type_def magic_pdf [OF assms(1)])
  next
    case 2
    then show ?thesis
      by (simp add: detect_file_type_def magic_pdf [OF assms(1)] claimed_kind_None_plain)
  next
    case 3
    then show ?thesis by (simp add: detect_file_type_def)
  qed
qed

theorem pdf_magic_unless_claimed_otherwise_witness:
  "prefix ''%PDF'' ''%PDF-1.7'' \<and> claimed_kind ''application/octet-stream'' = None \<and>
   detect_file_type (Bytes ''%PDF-1.7'') (Some ''application/octet-stream'') = Inr (Some Pdf)"
proof -
  have p: "prefix ''%PDF'' ''%PDF-1.7''" by simp
  have c: "claimed_kind ''application/octet-stream'' = None"
    by (simp add: claimed_kind_def file_types_def lower_def lower_char_def)
  then have "\<not> truthy (Some ''application/octet-stream'') \<or>
     claimed_kind (the (Some ''application/octet-stream'')) = None \<or>
     claimed_kind (the (Some ''application/octet-stream'')) = Some Pdf" by simp
  from pdf_magic_unless_claimed_otherwise [OF p this] p c show ?thesis by simp
qed

subsection \<open>C4: an up-to-date local file is skipped\<close>

text \<open>
  C4. When the reference of a record names an existing path, its text is not empty and
  the modification time of the file is at or before its \<open>updated_at\<close>, processing the
  record ends as a skip. The message that the file is up to date is what the column
  \<open>error\<close> of every row with the record's id holds afterwards, and nothing else of the
  table has changed: every other column of those rows and every other row is as before,
  so the column \<open>text\<close> of every row is as before. The trace is as before (the converter
  adapter and the external converter are not called, the file is not read), and no
  temporary file appears.
\<close>

theorem up_to_date_file_is_skipped:
  assumes "reference r = Some ref" and "ref \<noteq> []" and "path_exists w ref"
    and "text_col r \<noteq> []"
    and "strptime_record w (updated_at r) = Some record_time"
    and "getmtime w ref \<le> record_time"
    and "process_record w r l s = (oc, l', s')"
  shows "oc = Skipped (FileUpToDate (getmtime w ref) record_time) \<and>
         trace s' = trace s \<and> tmp_files s' = tmp_files s \<and>
         map text_col (db s') = map text_col (db s) \<and>
         db s' = map (\<lambda>x. if id_col x = id_col r
                           then x\<lparr>error := Some (FileUpToDate (getmtime w ref) record_time)\<rparr>
                           else x) (db s) \<and>
         (\<forall>x \<in> set (db s'). id_col x = id_col r \<longrightarrow>
            error x = Some (FileUpToDate (getmtime w ref) record_time)) \<and>
         (\<forall>r0. lookup (id_col r) (db s) = Some r0 \<longrightarrow>
            lookup (id_col r) (db s') =
              Some (r0\<lparr>error := Some (FileUpToDate (getmtime w ref) record_time)\<rparr>))"
proof -
  let ?m = "FileUpToDate (getmtime w ref) record_time"
  from assms have oc: "oc = Skipped ?m"
    and s': "s' = s\<lparr>db := set_error (id_col r) ?m (db s)\<rparr>"
    by (auto simp: process_record_def fetch_and_convert_def process_file_def skip_def Let_def)
  have tr: "trace s' = trace s" and tf: "tmp_files s' = tmp_files s"
    by (simp_all add: s')
  have d: "db s' = map (\<lambda>x. if id_col x = id_col r then x\<lparr>error := Some ?m\<rparr> else x) (db s)"
    by (simp add: s' set_error_def)
  have t: "map text_col (db s') = map text_col (db s)"
    by (simp add: d comp_def cong: map_cong)
  have e: "\<forall>x \<in> set (db s'). id_col x = id_col r \<longrightarrow> error x = Some ?m"
    by (auto simp: d)
  have k: "\<forall>r0. lookup (id_col r) (db s) = Some r0 \<longrightarrow>
             lookup (id_col r) (db s') = Some (r0\<lparr>error := Some ?m\<rparr>)"
    by (simp add: s' lookup_set_error)
  show ?thesis
    by (intro conjI) (rule oc, rule tr, rule tf, rule t, rule d, rule e, rule k)
qed

theorem up_to_date_file_is_skipped_witness:
  "path_exists example_world ''/tmp/notes.txt'' \<and>
   strptime_record example_world (updated_at (example_row 1 ''old'' ''/tmp/notes.txt''))
     = Some 1577836800 \<and>
   getmtime example_world ''/tmp/notes.txt'' \<le> 1577836800 \<and>
   fst (process_record example_world (example_row 1 ''old'' ''/tmp/notes.txt'')
          \<lparr>markdown_text = None, response = None\<rparr>
          (example_state [example_row 1 ''old'' ''/tmp/notes.txt'']))
     = Skipped (FileUpToDate 1500000000 1577836800) \<and>
   trace (snd (snd (process_record example_world (example_row 1 ''old'' ''/tmp/notes.txt'')
          \<lparr>markdown_text = None, response = None\<rparr>
          (example_state [example_row 1 ''old'' ''/tmp/notes.txt''])))) = [] \<and>
   map text_col (db (snd (snd (process_record example_world
          (example_row 1 ''old'' ''/tmp/notes.txt'')
          \<lparr>markdown_text = None, response = None\<rparr>
          (example_state [example_row 1 ''old'' ''/tmp/notes.txt''])))))
     = [''old''] \<and>
   lookup 1 (db (snd (snd (process_record example_world
          (example_row 1 ''old'' ''/tmp/notes.txt'')
          \<lparr>markdown_text = None, response = None\<rparr>
          (example_state [example_row 1 ''old'' ''/tmp/notes.txt''])))))
     = Some ((example_row 1 ''old'' ''/tmp/notes.txt'')
              \<lparr>error := Some (FileUpToDate 1500000000 1577836800)\<rparr>)"
proof -
  let ?r = "example_row 1 ''old'' ''/tmp/notes.txt''"
  let ?l = "\<lparr>markdown_text = None, response = None\<rparr>"
  let ?s = "example_state [?r]"
  have a: "reference ?r = Some ''/tmp/notes.txt''" "''/tmp/notes.txt'' \<noteq> []"
    "path_exists example_world ''/tmp/notes.txt''" "text_col ?r \<noteq> []"
    "strptime_record example_world (updated_at ?r) = Some 1577836800"
    "getmtime example_world ''/tmp/notes.txt'' \<le> 1577836800"
    by (simp_all add: example_defs)
  have p: "process_record example_world ?r ?l ?s
     = (fst (process_record example_world ?r ?l ?s),
        fst (snd (process_record example_world ?r ?l ?s)),
        snd (snd (process_record example_world ?r ?l ?s)))" by simp
  have g: "getmtime example_world ''/tmp/notes.txt'' = 1500000000"
    and t0: "trace ?s = []" and d0: "map text_col (db ?s) = [''old'']"
    and i: "id_col ?r = 1"
    by (simp_all add: example_defs)
  have l0: "lookup 1 (db ?s) = Some ?r" by (simp add: lookup_def example_defs)
  note c = up_to_date_file_is_skipped [OF a p, unfolded g t0 d0 i]
  from c l0 have k: "lookup 1 (db (snd (snd (process_record example_world ?r ?l ?s))))
     = Some (?r\<lparr>error := Some (FileUpToDate 1500000000 1577836800)\<rparr>)" by blast
  from a(3,5,6) c k show ?thesis by blast
qed

subsection \<open>C5: a selector that matches nothing\<close>

text \<open>
  C5 holds of the specification and fails in the code. When no element matches the
  selector, the branch assigns nothing and control reaches the final update, which reads
  the variable \<open>markdown_text\<close> of the loop's function. In a batch where an earlier
  record was converted, that variable still holds the earlier record's text: the record
  with the selector ends as a success, with the text of the other record's file, its
  fingerprint and \<open>update_flg = 1\<close>, and nothing in \<open>error\<close>. (Only when no earlier record
  has assigned the variable does the read raise, and the record end as a failure.)
\<close>

theorem selector_miss_takes_previous_text:
  "select_one example_world (body_text html_page) (strip ''div.content'') = Inr None \<and>
   fst (process_content example_world (example_state
       [example_row 1 [] ''/tmp/notes.txt'',
        example_row 2 ''old'' ''https://example.org/a,div.content'']))
     = [(1, Updated ''hello''), (2, Updated ''hello'')] \<and>
   lookup 2 (db (snd (process_content example_world (example_state
       [example_row 1 [] ''/tmp/notes.txt'',
        example_row 2 ''old'' ''https://example.org/a,div.content'']))))
     = Some ((example_row 2 ''old'' ''https://example.org/a,div.content'')
               \<lparr>text_col := ''hello'', hash := ''sha1 of hello'', update_flg := 1\<rparr>) \<and>
   fst (process_content example_world (example_state
       [example_row 2 ''old'' ''https://example.org/a,div.content'']))
     = [(2, Failed (UnboundLocalError ''markdown_text''))]"
  by code_simp

subsection \<open>C6: the temporary file\<close>

text \<open>
  C6 holds of the specification and fails in the code. \<open>save_temp_file\<close> is called before
  the \<open>try\<close> whose \<open>finally\<close> removes the file. For a \<open>URL,selector\<close> reference the
  content is the text of the selected element, a \<open>str\<close>: when the page is served with a
  content type of a kind other than text, \<open>save_temp_file\<close> creates the file and raises on
  writing the string into it, and the file is still there when \<open>convert_content\<close> has
  returned. (For \<open>bytes\<close> content no file the call created is left:
  \<open>convert_content_bytes_cleans\<close>.)
\<close>

theorem temp_file_left_behind:
  "convert_content example_world (Str ''hi'') (Some ''text/html; charset=utf-8'') 1
       (example_state [example_row 1 [] ''https://example.org/a,p''])
     = (None,
        \<lparr>db = [(example_row 1 [] ''https://example.org/a,p'')
                  \<lparr>error := Some (ExcMsg TypeError)\<rparr>],
         tmp_files = [''temp_20240101000000.html''],
         trace = [ConvertContent 1]\<rparr>) \<and>
   fst (process_content example_world
       (example_state [example_row 1 [] ''https://example.org/a,p'']))
     = [(1, Failed ConversionFailed)] \<and>
   tmp_files (snd (process_content example_world
       (example_state [example_row 1 [] ''https://example.org/a,p''])))
     = [''temp_20240101000000.html'']"
  by code_simp

subsection \<open>C7: the message of an outcome\<close>

text \<open>
  C7, as stated, fails: a success writes \<open>text\<close>, \<open>hash\<close> and \<open>update_flg\<close> only. After
  the successful conversion of a record whose \<open>error\<close> was NULL, it is still NULL.
\<close>

theorem success_writes_no_message_counterexample:
  "fst (process_content example_world (example_state [example_row 1 [] ''/tmp/notes.txt'']))
     = [(1, Updated ''hello'')] \<and>
   map error (db (snd (process_content example_world
       (example_state [example_row 1 [] ''/tmp/notes.txt'']))))
     = [None]"
  by code_simp

text \<open>
  C7, amended. In a batch with distinct ids, a record that ends as a skip or as a failure
  has the message of that outcome in its column \<open>error\<close> after the run; a record that
  ends as a success, or that has no reference, has in \<open>error\<close> what it had before.
\<close>

theorem message_written_on_skip_and_failure:
  assumes "distinct (map id_col (db s))" and "process_content w s = (ocs, s')"
    and "(i, oc) \<in> set ocs"
  shows "\<exists>r r'. lookup i (db s) = Some r \<and> lookup i (db s') = Some r' \<and>
           error r' = (case oc of
                         NoReference \<Rightarrow> error r
                       | Skipped m \<Rightarrow> Some m
                       | Failed e \<Rightarrow> Some (ExcMsg e)
                       | Updated t \<Rightarrow> error r)"
proof -
  from process_content_rows [OF assms] obtain r where
    r: "lookup i (db s) = Some r" "lookup i (db s') = Some (apply_row w oc r)" by blast
  have "error (apply_row w oc r) = (case oc of
                         NoReference \<Rightarrow> error r
                       | Skipped m \<Rightarrow> Some m
                       | Failed e \<Rightarrow> Some (ExcMsg e)
                       | Updated t \<Rightarrow> error r)"
    by (cases oc) simp_all
  with r show ?thesis by blast
qed

theorem message_written_on_skip_and_failure_witness:
  "distinct (map id_col (db (example_state
       [example_row 1 ''old'' ''/tmp/notes.txt'', example_row 2 [] ''/nowhere'']))) \<and>
   fst (process_content example_world (example_state
       [example_row 1 ''old'' ''/tmp/notes.txt'', example_row 2 [] ''/nowhere'']))
     = [(1, Skipped (FileUpToDate 1500000000 1577836800)), (2, Skipped FileNotExist)] \<and>
   (\<exists>r r'. lookup 2 (db (example_state
                [example_row 1 ''old'' ''/tmp/notes.txt'', example_row 2 [] ''/nowhere''])) = Some r \<and>
           lookup 2 (db (snd (process_content example_world (example_state
                [example_row 1 ''old'' ''/tmp/notes.txt'', example_row 2 [] ''/nowhere'']))))
             = Some r' \<and>
           error r' = Some FileNotExist)"
proof -
  let ?s = "example_state
       [example_row 1 ''old'' ''/tmp/notes.txt'', example_row 2 [] ''/nowhere'']"
  have d: "distinct (map id_col (db ?s))" by (simp add: example_defs)
  have o: "fst (process_content example_world ?s)
     = [(1, Skipped (FileUpToDate 1500000000 1577836800)), (2, Skipped FileNotExist)]"
    by code_simp
  then have m: "(2, Skipped FileNotExist) \<in> set (fst (process_content example_world ?s))"
    by simp
  from message_written_on_skip_and_failure [OF d prod.collapse [symmetric] m]
  have "\<exists>r r'. lookup 2 (db ?s) = Some r \<and>
           lookup 2 (db (snd (process_content example_world ?s))) = Some r' \<and>
           error r' = Some FileNotExist" by simp
  with d o show ?thesis by blast
qed

subsection \<open>C8: the flag after a push\<close>

text \<open>
  C8, as stated, fails: nothing in the program clears \<open>update_flg\<close>. A row with the flag
  set whose push the remote store acknowledges still has the flag set.
\<close>

theorem push_clears_flag_counterexample:
  "trace (update_records example_world
            (example_state [(example_row 1 ''hello'' ''/tmp/notes.txt'')\<lparr>update_flg := 1\<rparr>]))
     = [PostOk 1] \<and>
   map update_flg (db (update_records example_world
            (example_state [(example_row 1 ''hello'' ''/tmp/notes.txt'')\<lparr>update_flg := 1\<rparr>])))
     = [1]"
  by code_simp

text \<open>
  C8, amended. \<open>update_records\<close> sends one request for every row with \<open>update_flg = 1\<close>,
  in the order of the table, and logs for each whether it was acknowledged or failed; a
  failure does not stop the later ones. It does not write the table: after the push,
  acknowledged or failed, \<open>update_flg\<close> of every row is what it was, 1 for the rows pushed.
\<close>

theorem push_leaves_flag:
  "db (update_records w s) = db s \<and>
   trace (update_records w s) =
     rev (map (push_event w) (filter (\<lambda>r. update_flg r = 1) (db s))) @ trace s"
  by (simp add: update_records_def db_foldl_push trace_foldl_push)

subsection \<open>C9: the extension of the temporary file\<close>

text \<open>
  C9 holds of the specification and fails in the code, in its middle part. For the record
  of \<open>/tmp/report.docx\<close>, a file that begins with the ZIP header, the classifier yields
  word and the extension resolver \<open>detect_file_extension\<close> would yield \<open>.docx\<close>; but the
  resolver is called nowhere, \<open>save_temp_file\<close> takes the first extension registered for
  the kind, and the file handed to the external converter ends in \<open>.doc\<close>. On success
  \<open>update_flg\<close> becomes 1.
\<close>

theorem docx_saved_as_doc:
  "read_file example_world ''/tmp/report.docx'' = Inr (zip_magic @ ''[Content_Types].xml'') \<and>
   detect_file_type (Bytes (zip_magic @ ''[Content_Types].xml''))
       (Some (guess_content_type (lower (splitext ''/tmp/report.docx''))))
     = Inr (Some Word) \<and>
   detect_file_extension (zip_magic @ ''[Content_Types].xml'')
       (Some (guess_content_type (lower (splitext ''/tmp/report.docx''))))
     = Some ''.docx'' \<and>
   trace (snd (process_content example_world
       (example_state [example_row 1 [] ''/tmp/report.docx''])))
     = [LogUpdated 1, LogUpdated 1, MdConvert ''temp_20240101000000.doc'', ConvertContent 1,
        ReadFile ''/tmp/report.docx''] \<and>
   map update_flg (db (snd (process_content example_world
       (example_state [example_row 1 [] ''/tmp/report.docx'']))))
     = [1]"
  by code_simp

subsection \<open>C10: what the pipeline leaves alone, and what it converts again\<close>

text \<open>
  C10, as stated, fails in its last part. A file that is not newer than \<open>updated_at\<close> is
  converted when the text of its record is empty; the text is then not empty any more,
  and the next pass over the table skips the record: the file is not read and not
  converted again.
\<close>

theorem converted_again_every_pass_counterexample:
  "fst (process_content example_world (example_state [example_row 1 [] ''/tmp/notes.txt'']))
     = [(1, Updated ''hello'')] \<and>
   fst (process_content example_world
          (pass example_world (example_state [example_row 1 [] ''/tmp/notes.txt''])))
     = [(1, Skipped (FileUpToDate 1500000000 1577836800))] \<and>
   trace (pass example_world
          (pass example_world (example_state [example_row 1 [] ''/tmp/notes.txt''])))
     = trace (pass example_world (example_state [example_row 1 [] ''/tmp/notes.txt'']))"
  by code_simp

text \<open>
  C10, amended. A pass of the pipeline changes no column other than \<open>text\<close>, \<open>hash\<close>,
  \<open>update_flg\<close> and \<open>error\<close>; in particular \<open>updated_at\<close> and \<open>reference\<close> of every row
  stay what they were. So a record whose reference names a readable file with a
  modification time later than \<open>updated_at\<close> is read and handed to the converter adapter
  again in every pass, however many passes went before.
\<close>

theorem newer_file_reconverted_every_pass:
  "map frame (db (pass w s)) = map frame (db s) \<and>
   (r \<in> set (db s) \<and> newer_file w r ref b \<longrightarrow>
      (\<exists>es. trace (pass w ((pass w ^^ n) s)) = es @ trace ((pass w ^^ n) s) \<and>
            ReadFile ref \<in> set es \<and> ConvertContent (id_col r) \<in> set es))"
proof (intro conjI impI)
  show "map frame (db (pass w s)) = map frame (db s)" by (rule frame_pass)
next
  assume a: "r \<in> set (db s) \<and> newer_file w r ref b"
  from frame_member [OF frame_passes [where w = w and n = n and s = s]] a obtain r' where
    r': "r' \<in> set (db ((pass w ^^ n) s))" "frame r' = frame r" by blast
  from a newer_file_frame [OF r'(2), of w ref b] have n: "newer_file w r' ref b" by blast
  from r'(2) have "id_col r' = id_col r" by (simp add: frame_def)
  with pass_newer [OF r'(1) n]
  show "\<exists>es. trace (pass w ((pass w ^^ n) s)) = es @ trace ((pass w ^^ n) s) \<and>
            ReadFile ref \<in> set es \<and> ConvertContent (id_col r) \<in> set es" by simp
qed

theorem newer_file_reconverted_every_pass_witness:
  "example_row 1 [] ''/tmp/new.txt'' \<in> set (db (example_state [example_row 1 [] ''/tmp/new.txt''])) \<and>
   newer_file example_world (example_row 1 [] ''/tmp/new.txt'') ''/tmp/new.txt'' ''fresh'' \<and>
   (\<exists>es. trace (pass example_world
                  ((pass example_world ^^ 2) (example_state [example_row 1 [] ''/tmp/new.txt''])))
            = es @ trace ((pass example_world ^^ 2)
                           (example_state [example_row 1 [] ''/tmp/new.txt''])) \<and>
         ReadFile ''/tmp/new.txt'' \<in> set es \<and> ConvertContent 1 \<in> set es)"
proof -
  let ?r = "example_row 1 [] ''/tmp/new.txt''"
  have m: "?r \<in> set (db (example_state [?r]))" by (simp add: example_state_def)
  have n: "newer_file example_world ?r ''/tmp/new.txt'' ''fresh''"
    by (simp add: newer_file_def example_defs)
  have i: "id_col ?r = 1" by (simp add: example_defs)
  from newer_file_reconverted_every_pass
         [of example_world "example_state [?r]" ?r "''/tmp/new.txt''" "''fresh''" 2] m n
  have "\<exists>es. trace (pass example_world ((pass example_world ^^ 2) (example_state [?r])))
            = es @ trace ((pass example_world ^^ 2) (example_state [?r])) \<and>
         ReadFile ''/tmp/new.txt'' \<in> set es \<and> ConvertContent (id_col ?r) \<in> set es"
    by blast
  with m n show ?thesis unfolding i by blast
qed

end
